theory Spec2Isabelle
  imports Main "HOL-Library.AList"
begin

section \<open>Exception classes (xmlschema/exceptions.py)\<close>

text \<open>
  The classes of \<^verbatim>\<open>exceptions.py\<close>, together with the Python built-in classes they
  derive from. \<open>URLError\<close> is the standard library's \<^verbatim>\<open>urllib.error.URLError\<close>, a subclass
  of \<open>OSError\<close>. \<open>IndexError\<close> and \<open>LookupError\<close> are built-ins that the operations
  of the program can raise.

  \<open>XMLSchemaValidationError\<close> is defined in \<^verbatim>\<open>validators/exceptions.py\<close>, which is not
  among the source files (\<^verbatim>\<open>__init__.py\<close> imports it in line 22).
  Modelled from the spec: section 7 names it in the taxonomy and says that all error
  kinds share a common base, so its base is \<open>XMLSchemaException\<close>.

  \<open>JSONDecodeError\<close> is the error of the standard library's \<^verbatim>\<open>json\<close> module for a text
  that is not JSON, a subclass of \<open>ValueError\<close> (Python 3).
\<close>

datatype exc_class =
    BaseException | Exception | OSError | AttributeError | TypeError | ValueError
  | SyntaxError | LookupError | IndexError | KeyError | URLError
  | XMLSchemaException
  | XMLSchemaOSError | XMLSchemaAttributeError | XMLSchemaTypeError
  | XMLSchemaValueError | XMLSchemaSyntaxError | XMLSchemaKeyError
  | XMLSchemaURLError | XMLSchemaRegexError | XMLSchemaXPathError
  | XMLSchemaValidationError
  | JSONDecodeError

text \<open>The direct base classes, in the order of each \<^verbatim>\<open>class\<close> statement.\<close>

fun bases :: "exc_class \<Rightarrow> exc_class list" where
  "bases BaseException = []"
| "bases Exception = [BaseException]"
| "bases OSError = [Exception]"
| "bases AttributeError = [Exception]"
| "bases TypeError = [Exception]"
| "bases ValueError = [Exception]"
| "bases SyntaxError = [Exception]"
| "bases LookupError = [Exception]"
| "bases IndexError = [LookupError]"
| "bases KeyError = [LookupError]"
| "bases URLError = [OSError]"
| "bases XMLSchemaException = [Exception]"
| "bases XMLSchemaOSError = [XMLSchemaException, OSError]"
| "bases XMLSchemaAttributeError = [XMLSchemaException, AttributeError]"
| "bases XMLSchemaTypeError = [XMLSchemaException, TypeError]"
| "bases XMLSchemaValueError = [XMLSchemaException, ValueError]"
| "bases XMLSchemaSyntaxError = [XMLSchemaException, SyntaxError]"
| "bases XMLSchemaKeyError = [XMLSchemaException, KeyError]"
| "bases XMLSchemaURLError = [XMLSchemaException, URLError]"
| "bases XMLSchemaRegexError = [XMLSchemaException, ValueError]"
| "bases XMLSchemaXPathError = [XMLSchemaException, ValueError]"
| "bases XMLSchemaValidationError = [XMLSchemaException]"
| "bases JSONDecodeError = [ValueError]"

text \<open>The length of the longest chain of base classes above a class.\<close>

fun depth :: "exc_class \<Rightarrow> nat" where
  "depth BaseException = 0"
| "depth Exception = 1"
| "depth LookupError = 2"
| "depth IndexError = 3"
| "depth KeyError = 3"
| "depth OSError = 2"
| "depth URLError = 3"
| "depth AttributeError = 2"
| "depth TypeError = 2"
| "depth ValueError = 2"
| "depth SyntaxError = 2"
| "depth XMLSchemaException = 2"
| "depth XMLSchemaValidationError = 3"
| "depth JSONDecodeError = 3"
| "depth c = 4"

text \<open>
  Python's \<^verbatim>\<open>issubclass(c, d)\<close>: \<open>d\<close> is \<open>c\<close> or an ancestor of \<open>c\<close>. The search goes
  through a list of classes still to visit and puts the bases of a visited class in
  front of it.
\<close>

function any_subclass :: "exc_class list \<Rightarrow> exc_class \<Rightarrow> bool" where
  "any_subclass [] d = False"
| "any_subclass (c # cs) d = (c = d \<or> any_subclass (bases c @ cs) d)"
  by pat_completeness auto
termination
proof (relation "measure (\<lambda>(cs, d). sum_list (map (\<lambda>b. 3 ^ depth b) cs))")
  show "wf (measure (\<lambda>(cs, d :: exc_class). sum_list (map (\<lambda>b. 3 ^ depth b) cs)))"
    by simp
next
  fix c :: exc_class and cs :: "exc_class list" and d :: exc_class
  show "((bases c @ cs, d), (c # cs, d))
          \<in> measure (\<lambda>(cs, d). sum_list (map (\<lambda>b. 3 ^ depth b) cs))"
  proof -
    have "sum_list (map (\<lambda>b. 3 ^ depth b) (bases c)) < (3::nat) ^ depth c"
      by (cases c) simp_all
    then show ?thesis by simp
  qed
qed

definition issubclass :: "exc_class \<Rightarrow> exc_class \<Rightarrow> bool" where
  "issubclass c d = any_subclass [c] d"

text \<open>An exception instance: its class and its message.\<close>

datatype exn = Exn (exn_class: exc_class) (exn_message: string)

text \<open>\<^verbatim>\<open>except C\<close> catches \<open>e\<close> when \<^verbatim>\<open>isinstance(e, C)\<close>.\<close>

definition isinstance_exn :: "exn \<Rightarrow> exc_class \<Rightarrow> bool" where
  "isinstance_exn e c = issubclass (exn_class e) c"

section \<open>Dictionaries and strings\<close>

text \<open>
  A \<^verbatim>\<open>dict\<close> with string keys is an association list in insertion order, which is the
  order a \<^verbatim>\<open>for\<close> loop visits the keys in. A Python dict holds every key once.
\<close>

type_synonym 'v dict = "(string \<times> 'v) list"

definition dict_keys :: "'v dict \<Rightarrow> string list" where
  "dict_keys d = map fst d"

text \<open>\<^verbatim>\<open>d.get(k, default)\<close>\<close>

definition dict_get :: "'v dict \<Rightarrow> string \<Rightarrow> 'v \<Rightarrow> 'v" where
  "dict_get d k dflt = (case map_of d k of None \<Rightarrow> dflt | Some v \<Rightarrow> v)"

text \<open>
  \<^verbatim>\<open>repr(s)\<close> of a string that holds no quote, no backslash and no unprintable
  character, which is the case of an XML attribute name: the string between single
  quotes (Python 3).
\<close>

definition py_repr :: "string \<Rightarrow> string" where
  "py_repr s = CHR 0x27 # s @ [CHR 0x27]"

text \<open>\<^verbatim>\<open>d[k]\<close>, which raises \<open>KeyError\<close> for a missing key.\<close>

definition dict_getitem :: "'v dict \<Rightarrow> string \<Rightarrow> exn + 'v" where
  "dict_getitem d k = (case map_of d k of None \<Rightarrow> Inl (Exn KeyError (py_repr k)) | Some v \<Rightarrow> Inr v)"

section \<open>XsdNotation (xmlschema/components/\_\_init\_\_.py)\<close>

text \<open>
  \<^verbatim>\<open>XMLSchemaParseError(message, self)\<close>: the message and the component the error is
  about. The component is a mutable object, so the error holds its identity.
\<close>

datatype parse_error = XMLSchemaParseError (error_message: string) (error_obj: nat)

text \<open>The owning schema, as far as \<^verbatim>\<open>XsdNotation\<close> reads and writes it.\<close>

record xml_schema =
  target_namespace :: string
  errors :: "parse_error list"

text \<open>
  The notation component: \<open>oid\<close> is the identity of the object, \<open>elem_attrib\<close> is
  \<^verbatim>\<open>self.elem.attrib\<close>. The owning schema \<^verbatim>\<open>self.schema\<close> is an object shared by all
  components of the schema; it is passed beside the component and returned updated.

  The base class \<^verbatim>\<open>XsdComponent\<close> (module \<^verbatim>\<open>xsdbase\<close>) is not among the source files.
  Modelled from the spec: section 3 gives every component its own \<open>errors\<close> sequence,
  the field \<open>component_errors\<close> here. No statement of \<^verbatim>\<open>XsdNotation\<close> refers to it.
\<close>

record xsd_notation =
  oid :: nat
  name :: string
  elem_attrib :: "string dict"
  is_global :: bool
  component_errors :: "parse_error list"

text \<open>
  Modelled from the spec: the constructor of the base class \<^verbatim>\<open>XsdComponent\<close>, which is
  not among the source files, stores the name, the source node and \<open>is_global\<close>
  (section 3) in a component that has no diagnostics yet.
\<close>

definition XsdComponent_init :: "nat \<Rightarrow> string \<Rightarrow> string dict \<Rightarrow> bool \<Rightarrow> xsd_notation" where
  "XsdComponent_init i nm attrib glob =
     \<lparr>oid = i, name = nm, elem_attrib = attrib, is_global = glob, component_errors = []\<rparr>"

text \<open>
  \<^verbatim>\<open>XsdNotation.__init__\<close> (lines 52-53): the name handed to the base constructor is
  \<^verbatim>\<open>elem.get('name', '')\<close>. \<open>i\<close> is the identity of the new object.
\<close>

definition XsdNotation_init :: "nat \<Rightarrow> string dict \<Rightarrow> bool \<Rightarrow> xsd_notation" where
  "XsdNotation_init i attrib glob = XsdComponent_init i (dict_get attrib ''name'' '''') attrib glob"

text \<open>\<^verbatim>\<open>self.schema.errors.append(XMLSchemaParseError(msg, self))\<close>\<close>

definition append_error :: "string \<Rightarrow> xsd_notation \<Rightarrow> xml_schema \<Rightarrow> xml_schema" where
  "append_error msg self schema =
     schema\<lparr>errors := errors schema @ [XMLSchemaParseError msg (oid self)]\<rparr>"

definition wrong_attribute :: "string \<Rightarrow> string" where
  "wrong_attribute key = ''wrong attribute '' @ py_repr key @ '' for notation definition.''"

text \<open>
  The loop of lines 68-76 over the keys still to visit. Both \<^verbatim>\<open>if\<close> statements are in
  the body of the loop, as the source indents them.
\<close>

fun check_attributes :: "string list \<Rightarrow> xsd_notation \<Rightarrow> xml_schema \<Rightarrow> xml_schema" where
  "check_attributes [] self schema = schema"
| "check_attributes (key # keys) self schema =
     (let schema1 =
        (if key \<notin> {''id'', ''name'', ''public'', ''system''}
         then append_error (wrong_attribute key) self schema
         else schema);
          schema2 =
        (if ''public'' \<notin> set (dict_keys (elem_attrib self)) \<and>
            ''system'' \<notin> set (dict_keys (elem_attrib self))
         then append_error ''a notation may have 'public' or 'system' attribute.'' self schema1
         else schema1)
      in check_attributes keys self schema2)"

text \<open>
  The right-hand side of line 62. The arguments of \<^verbatim>\<open>get_qname\<close> are evaluated
  first, so a missing \<^verbatim>\<open>'name'\<close> raises \<open>KeyError\<close> before the call. \<^verbatim>\<open>get_qname\<close>
  (module \<^verbatim>\<open>qnames\<close>) is not among the source files and is a parameter; it may raise.
\<close>

definition qualified_name ::
  "(string \<Rightarrow> string \<Rightarrow> exn + string) \<Rightarrow> xsd_notation \<Rightarrow> xml_schema \<Rightarrow> exn + string" where
  "qualified_name get_qname self schema =
     (case dict_getitem (elem_attrib self) ''name'' of
        Inl e \<Rightarrow> Inl e
      | Inr n \<Rightarrow> get_qname (target_namespace schema) n)"

text \<open>
  The \<^verbatim>\<open>try\<close> statement of lines 61-66. The handler catches every instance of
  \<open>KeyError\<close> and lets any other exception pass.
\<close>

definition parse_name ::
  "(string \<Rightarrow> string \<Rightarrow> exn + string) \<Rightarrow> xsd_notation \<Rightarrow> xml_schema
     \<Rightarrow> exn + (xsd_notation \<times> xml_schema)" where
  "parse_name get_qname self schema =
     (case qualified_name get_qname self schema of
        Inr q \<Rightarrow> Inr (self\<lparr>name := q\<rparr>, schema)
      | Inl e \<Rightarrow>
          if isinstance_exn e KeyError
          then Inr (self, append_error ''a notation must have a 'name'.'' self schema)
          else Inl e)"

text \<open>
  \<^verbatim>\<open>XsdNotation._parse\<close> (lines 55-76). \<^verbatim>\<open>super()._parse()\<close> is the method of the base
  class, which is not among the source files: it is the parameter \<open>XsdComponent_parse\<close>,
  which may change the component and the schema, or raise.
\<close>

definition XsdNotation_parse ::
  "(xsd_notation \<Rightarrow> xml_schema \<Rightarrow> exn + (xsd_notation \<times> xml_schema))
     \<Rightarrow> (string \<Rightarrow> string \<Rightarrow> exn + string)
     \<Rightarrow> xsd_notation \<Rightarrow> xml_schema \<Rightarrow> exn + (xsd_notation \<times> xml_schema)" where
  "XsdNotation_parse XsdComponent_parse get_qname self schema =
     (case XsdComponent_parse self schema of
        Inl e \<Rightarrow> Inl e
      | Inr (self0, schema0) \<Rightarrow>
          (let schema1 =
             (if \<not> is_global self0
              then append_error ''a notation declaration must be global.'' self0 schema0
              else schema0)
           in case parse_name get_qname self0 schema1 of
                Inl e \<Rightarrow> Inl e
              | Inr (self2, schema2) \<Rightarrow>
                  Inr (self2, check_attributes (dict_keys (elem_attrib self2)) self2 schema2)))"

text \<open>
  Instances of the two parameters for the examples: a base \<^verbatim>\<open>_parse\<close> that changes
  nothing, and a \<^verbatim>\<open>get_qname\<close> that writes the name in the form \<^verbatim>\<open>{uri}local\<close>.
\<close>

definition base_parse_unchanged ::
  "xsd_notation \<Rightarrow> xml_schema \<Rightarrow> exn + (xsd_notation \<times> xml_schema)" where
  "base_parse_unchanged self schema = Inr (self, schema)"

definition get_qname_braces :: "string \<Rightarrow> string \<Rightarrow> exn + string" where
  "get_qname_braces uri nm = Inr (''{'' @ uri @ ''}'' @ nm)"


text \<open>
  The diagnostics of a notation in the order of detection, written from the three
  rules of the declaration and the rule on attributes: the declaration is global, it has
  a name, and every attribute is checked in turn. \<open>no_name\<close> says whether the name
  was found missing.
\<close>

definition attribute_diagnostics :: "xsd_notation \<Rightarrow> string \<Rightarrow> string list" where
  "attribute_diagnostics self key =
     (if key \<in> {''id'', ''name'', ''public'', ''system''} then [] else [wrong_attribute key]) @
     (if ''public'' \<in> set (dict_keys (elem_attrib self)) \<or>
         ''system'' \<in> set (dict_keys (elem_attrib self))
      then [] else [''a notation may have 'public' or 'system' attribute.''])"

definition notation_messages :: "bool \<Rightarrow> xsd_notation \<Rightarrow> string list" where
  "notation_messages no_name self =
     (if is_global self then [] else [''a notation declaration must be global.'']) @
     (if no_name then [''a notation must have a 'name'.''] else []) @
     concat (map (attribute_diagnostics self) (dict_keys (elem_attrib self)))"

definition notation_diagnostics :: "xsd_notation \<Rightarrow> parse_error list" where
  "notation_diagnostics self =
     map (\<lambda>msg. XMLSchemaParseError msg (oid self))
       (notation_messages (''name'' \<notin> set (dict_keys (elem_attrib self))) self)"

section \<open>The public entry points (xmlschema/\_\_init\_\_.py)\<close>

text \<open>
  Python values, as far as the entry points look at them. A \<open>PySchema\<close> is an instance
  of \<^verbatim>\<open>XMLSchema\<close>, a \<open>PyFile\<close> an object with \<^verbatim>\<open>read\<close> and \<^verbatim>\<open>write\<close> methods, a
  \<open>PyObject\<close> any other object (an element tree, a converter); the number is the
  identity of the object. A \<open>PyClass\<close> is a class named by its name and a \<open>PyExc\<close> an
  exception instance held as a value, as in a list of validation errors.
\<close>

datatype py_obj =
    PyNone
  | PyBool bool
  | PyStr string
  | PyList "py_obj list"
  | PyTuple "py_obj list"
  | PyDict "(string \<times> py_obj) list"
  | PyClass string
  | PySchema nat
  | PyFile nat
  | PyObject nat
  | PyExc exn

type_synonym kwargs = "py_obj dict"

text \<open>
  The code outside this module that the entry points call: a function of another module
  or of the standard library, a method of an object, or a class that is called to build
  an instance. None of it is among the source files.
\<close>

datatype callee = Function string | Method py_obj string | Constructor py_obj

text \<open>A call: what is called, the positional arguments and the keyword arguments.\<close>

datatype call = Call callee "py_obj list" kwargs

text \<open>The two places where the entry points iterate a value.\<close>

datatype iter_use = Unpacking | Tuple_call

text \<open>
  The environment answers every outside call, given the calls made so far, by a value
  or by an exception. \<open>repr\<close> is Python's \<^verbatim>\<open>repr\<close>. \<open>iterate\<close> is the iteration of a
  value that is not a list, a tuple, a string or a dict: the items that the object's
  own iterator gives (the lines of a file), or the exception that Python raises there
  (\<open>TypeError\<close> for a value that is not iterable).
\<close>

record env =
  ext :: "call list \<Rightarrow> call \<Rightarrow> exn + py_obj"
  repr :: "py_obj \<Rightarrow> string"
  iterate :: "iter_use \<Rightarrow> py_obj \<Rightarrow> exn + py_obj list"

text \<open>
  A computation takes the list of the calls made so far and gives the list extended by
  the calls it makes, and a value or the exception it raises.
\<close>

type_synonym 'a prog = "call list \<Rightarrow> call list \<times> (exn + 'a)"

definition ret :: "'a \<Rightarrow> 'a prog" where
  "ret x log = (log, Inr x)"

definition raise :: "exn \<Rightarrow> 'a prog" where
  "raise e log = (log, Inl e)"

text \<open>The outcome of a built-in operation, which makes no outside call.\<close>

definition lift :: "exn + 'a \<Rightarrow> 'a prog" where
  "lift r log = (log, r)"

text \<open>Sequencing: an exception of the first computation ends the whole.\<close>

definition bind_prog :: "'a prog \<Rightarrow> ('a \<Rightarrow> 'b prog) \<Rightarrow> 'b prog" where
  "bind_prog m f log =
     (case m log of
        (log', Inl e) \<Rightarrow> (log', Inl e)
      | (log', Inr x) \<Rightarrow> f x log')"

definition call_ext :: "env \<Rightarrow> callee \<Rightarrow> py_obj list \<Rightarrow> kwargs \<Rightarrow> py_obj prog" where
  "call_ext env f args kw log = (log @ [Call f args kw], ext env log (Call f args kw))"

text \<open>An argument left out of a call takes the default of the signature.\<close>

definition arg_default :: "'a \<Rightarrow> 'a option \<Rightarrow> 'a" where
  "arg_default dflt arg = (case arg of None \<Rightarrow> dflt | Some v \<Rightarrow> v)"

text \<open>\<^verbatim>\<open>isinstance(schema, XMLSchema)\<close> and \<^verbatim>\<open>hasattr(source, 'read')\<close>\<close>

fun isinstance_XMLSchema :: "py_obj \<Rightarrow> bool" where
  "isinstance_XMLSchema (PySchema n) = True"
| "isinstance_XMLSchema x = False"

fun hasattr_read :: "py_obj \<Rightarrow> bool" where
  "hasattr_read (PyFile n) = True"
| "hasattr_read x = False"

text \<open>
  The items a value gives when it is iterated: those of a list or a tuple, the
  characters of a string, the keys of a dict; for any other value the environment says.
\<close>

fun py_iter :: "env \<Rightarrow> iter_use \<Rightarrow> py_obj \<Rightarrow> exn + py_obj list" where
  "py_iter env u (PyList xs) = Inr xs"
| "py_iter env u (PyTuple xs) = Inr xs"
| "py_iter env u (PyStr s) = Inr (map (\<lambda>c. PyStr [c]) s)"
| "py_iter env u (PyDict d) = Inr (map PyStr (dict_keys d))"
| "py_iter env u x = iterate env u x"

text \<open>
  \<^verbatim>\<open>a, b = x\<close>. The texts of the \<open>ValueError\<close> are those of CPython 3.8.
\<close>

definition unpack2 :: "env \<Rightarrow> py_obj \<Rightarrow> exn + (py_obj \<times> py_obj)" where
  "unpack2 env x =
     (case py_iter env Unpacking x of
        Inl e \<Rightarrow> Inl e
      | Inr [] \<Rightarrow> Inl (Exn ValueError ''not enough values to unpack (expected 2, got 0)'')
      | Inr [a] \<Rightarrow> Inl (Exn ValueError ''not enough values to unpack (expected 2, got 1)'')
      | Inr [a, b] \<Rightarrow> Inr (a, b)
      | Inr (a # b # c # cs) \<Rightarrow> Inl (Exn ValueError ''too many values to unpack (expected 2)''))"

text \<open>\<^verbatim>\<open>t[i]\<close> for a tuple \<open>t\<close> and \<open>i\<close> not negative, and \<^verbatim>\<open>tuple(x)\<close>\<close>

definition tuple_getitem :: "py_obj list \<Rightarrow> nat \<Rightarrow> exn + py_obj" where
  "tuple_getitem xs i =
     (if i < length xs then Inr (xs ! i) else Inl (Exn IndexError ''tuple index out of range''))"

definition py_tuple :: "env \<Rightarrow> py_obj \<Rightarrow> exn + py_obj" where
  "py_tuple env x =
     (case py_iter env Tuple_call x of Inl e \<Rightarrow> Inl e | Inr xs \<Rightarrow> Inr (PyTuple xs))"

text \<open>\<^verbatim>\<open>d.pop(k, default)\<close>: the value and the dict without the key.\<close>

definition dict_pop :: "'v dict \<Rightarrow> string \<Rightarrow> 'v \<Rightarrow> 'v \<times> 'v dict" where
  "dict_pop d k dflt = (dict_get d k dflt, AList.delete k d)"

text \<open>
  Lines 57-59, 89-91 and 125-127: the schema argument is not an \<^verbatim>\<open>XMLSchema\<close>
  instance. When it is \<^verbatim>\<open>None\<close> the schema and the locations are fetched from the
  document; then the class \<open>cls\<close> builds the schema instance.
\<close>

definition build_schema :: "env \<Rightarrow> py_obj \<Rightarrow> py_obj \<Rightarrow> py_obj \<Rightarrow> py_obj \<Rightarrow> py_obj prog" where
  "build_schema env xml_document schema cls locations =
     bind_prog
       (if schema = PyNone
        then bind_prog
               (call_ext env (Function ''fetch_schema_locations'') [xml_document, locations] [])
               (\<lambda>r. lift (unpack2 env r))
        else ret (schema, locations))
       (\<lambda>(schema, locations).
          call_ext env (Constructor cls) [schema]
            [(''validation'', PyStr ''strict''), (''locations'', locations)])"

text \<open>
  \<^verbatim>\<open>validate\<close> (lines 38-59). \<open>cls\<close> and \<open>use_defaults\<close> have defaults that are not
  \<^verbatim>\<open>None\<close>: \<open>None\<close> stands for an argument left out. The function has no
  \<^verbatim>\<open>return\<close> statement, so a call that completes gives \<^verbatim>\<open>None\<close>.
\<close>

definition validate ::
  "env \<Rightarrow> py_obj \<Rightarrow> py_obj \<Rightarrow> py_obj option \<Rightarrow> py_obj option \<Rightarrow> py_obj \<Rightarrow> py_obj prog" where
  "validate env xml_document schema cls_arg use_defaults_arg locations =
     (let cls = arg_default (PyClass ''XMLSchema'') cls_arg;
          use_defaults = arg_default (PyBool True) use_defaults_arg
      in if isinstance_XMLSchema schema
         then bind_prog
                (call_ext env (Method schema ''validate'') [xml_document, use_defaults] [])
                (\<lambda>_. ret PyNone)
         else bind_prog (build_schema env xml_document schema cls locations)
                (\<lambda>built.
                   bind_prog
                     (call_ext env (Method built ''validate'') [xml_document, use_defaults] [])
                     (\<lambda>_. ret PyNone)))"

text \<open>\<^verbatim>\<open>to_dict\<close> (lines 62-93)\<close>

definition to_dict ::
  "env \<Rightarrow> py_obj \<Rightarrow> py_obj \<Rightarrow> py_obj option \<Rightarrow> py_obj \<Rightarrow> py_obj option \<Rightarrow> py_obj \<Rightarrow> kwargs
     \<Rightarrow> py_obj prog" where
  "to_dict env xml_document schema cls_arg path process_namespaces_arg locations kwargs =
     (let cls = arg_default (PyClass ''XMLSchema'') cls_arg;
          process_namespaces = arg_default (PyBool True) process_namespaces_arg
      in bind_prog
           (if \<not> isinstance_XMLSchema schema
            then build_schema env xml_document schema cls locations
            else ret schema)
           (\<lambda>schema.
              call_ext env (Method schema ''to_dict'') [xml_document]
                ([(''path'', path), (''process_namespaces'', process_namespaces)] @ kwargs)))"

text \<open>
  The keyword arguments that \<^verbatim>\<open>to_json\<close> has left after lines 131-132 have popped
  \<^verbatim>\<open>decimal_type\<close> and \<^verbatim>\<open>dict_class\<close>.
\<close>

definition leftover_kwargs :: "kwargs \<Rightarrow> kwargs" where
  "leftover_kwargs kwargs =
     snd (dict_pop (snd (dict_pop kwargs ''decimal_type'' (PyClass ''float'')))
            ''dict_class'' (PyClass ''ordered_dict_class''))"

text \<open>
  \<^verbatim>\<open>to_json\<close>, lines 124-134: the schema instance and the decoding.
\<close>

definition to_json_decode ::
  "env \<Rightarrow> py_obj \<Rightarrow> py_obj \<Rightarrow> py_obj option \<Rightarrow> py_obj \<Rightarrow> py_obj \<Rightarrow> py_obj option \<Rightarrow> py_obj
     \<Rightarrow> kwargs \<Rightarrow> py_obj prog" where
  "to_json_decode env xml_document schema cls_arg path converter process_namespaces_arg
       locations kwargs =
     (let cls = arg_default (PyClass ''XMLSchema'') cls_arg;
          process_namespaces = arg_default (PyBool True) process_namespaces_arg
      in bind_prog
           (if \<not> isinstance_XMLSchema schema
            then build_schema env xml_document schema cls locations
            else ret schema)
           (\<lambda>schema.
              (let (decimal_type, kwargs1) = dict_pop kwargs ''decimal_type'' (PyClass ''float'');
                   (dict_class, kwargs2) =
                     dict_pop kwargs1 ''dict_class'' (PyClass ''ordered_dict_class'')
               in call_ext env (Method schema ''to_dict'') [xml_document]
                    ([(''path'', path), (''decimal_type'', decimal_type),
                      (''dict_class'', dict_class),
                      (''process_namespaces'', process_namespaces),
                      (''converter'', converter)] @ kwargs2))))"

text \<open>
  \<^verbatim>\<open>to_json\<close>, lines 136-145, for the decoded \<open>obj\<close>: \<open>kwargs\<close> is what lines 131-132
  have left, \<open>json_options\<close> the dict of line 129.
\<close>

definition to_json_emit :: "env \<Rightarrow> py_obj \<Rightarrow> kwargs \<Rightarrow> kwargs \<Rightarrow> py_obj \<Rightarrow> py_obj prog" where
  "to_json_emit env fp json_options kwargs obj =
     (case obj of
        PyTuple xs \<Rightarrow>
          if fp \<noteq> PyNone
          then bind_prog (lift (tuple_getitem xs 0)) (\<lambda>x0.
               bind_prog (call_ext env (Function ''json.dump'') [x0, fp] kwargs) (\<lambda>_.
               bind_prog (lift (tuple_getitem xs 1)) (\<lambda>x1.
               lift (py_tuple env x1))))
          else bind_prog (lift (tuple_getitem xs 0)) (\<lambda>x0.
               bind_prog (call_ext env (Function ''json.dumps'') [x0] json_options) (\<lambda>s.
               bind_prog (lift (tuple_getitem xs 1)) (\<lambda>x1.
               bind_prog (lift (py_tuple env x1)) (\<lambda>t.
               ret (PyTuple [s, t])))))
      | _ \<Rightarrow>
          if fp \<noteq> PyNone
          then bind_prog (call_ext env (Function ''json.dump'') [obj, fp] json_options)
                 (\<lambda>_. ret PyNone)
          else call_ext env (Function ''json.dumps'') [obj] json_options)"

text \<open>
  \<^verbatim>\<open>to_json\<close> (lines 96-145). \<open>json_options\<close> is \<open>None\<close> for Python's \<^verbatim>\<open>None\<close>, which
  line 129 replaces by the empty dict.
\<close>

definition to_json ::
  "env \<Rightarrow> py_obj \<Rightarrow> py_obj \<Rightarrow> py_obj \<Rightarrow> py_obj option \<Rightarrow> py_obj \<Rightarrow> py_obj \<Rightarrow> py_obj option
     \<Rightarrow> py_obj \<Rightarrow> kwargs option \<Rightarrow> kwargs \<Rightarrow> py_obj prog" where
  "to_json env xml_document fp schema cls_arg path converter process_namespaces_arg
       locations json_options kwargs =
     bind_prog
       (to_json_decode env xml_document schema cls_arg path converter process_namespaces_arg
          locations kwargs)
       (to_json_emit env fp (arg_default [] json_options) (leftover_kwargs kwargs))"

text \<open>
  The message of line 168. The operator \<^verbatim>\<open>%\<close> takes a tuple on its right as the list of
  the values to format, so a tuple that does not hold one value makes the operator
  itself raise \<open>TypeError\<close>.
\<close>

definition schema_required :: "env \<Rightarrow> py_obj \<Rightarrow> exn" where
  "schema_required env schema =
     (case schema of
        PyTuple [] \<Rightarrow> Exn TypeError ''not enough arguments for format string''
      | PyTuple [x] \<Rightarrow>
          Exn TypeError (''An XMLSchema instance required for 'schema' argument: '' @ repr env x)
      | PyTuple (x # y # zs) \<Rightarrow>
          Exn TypeError ''not all arguments converted during string formatting''
      | _ \<Rightarrow>
          Exn TypeError
            (''An XMLSchema instance required for 'schema' argument: '' @ repr env schema))"

text \<open>
  \<^verbatim>\<open>from_json\<close> (lines 148-180). The \<^verbatim>\<open>raise\<close> of line 168 comes before any outside
  call.
\<close>

definition from_json ::
  "env \<Rightarrow> py_obj \<Rightarrow> py_obj \<Rightarrow> py_obj \<Rightarrow> py_obj \<Rightarrow> kwargs option \<Rightarrow> kwargs \<Rightarrow> py_obj prog" where
  "from_json env source schema path converter json_options_arg kwargs =
     (if \<not> isinstance_XMLSchema schema
      then raise (schema_required env schema)
      else
        (let json_options = arg_default [] json_options_arg;
             (dict_class, kwargs1) = dict_pop kwargs ''dict_class'' (PyClass ''ordered_dict_class'');
             (object_hook, json_options1) =
               dict_pop json_options ''object_hook'' (PyClass ''ordered_dict_class'');
             (object_pairs_hook, json_options2) =
               dict_pop json_options1 ''object_pairs_hook'' (PyClass ''ordered_dict_class'')
         in bind_prog
              (call_ext env (Function (if hasattr_read source then ''json.load'' else ''json.loads''))
                 [source]
                 ([(''object_hook'', object_hook), (''object_pairs_hook'', object_pairs_hook)]
                    @ json_options2))
              (\<lambda>obj.
                 call_ext env (Method schema ''encode'') [obj]
                   ([(''path'', path), (''converter'', converter), (''dict_class'', dict_class)]
                      @ kwargs1))))"

subsection \<open>Example environments\<close>

text \<open>
  Environments for the examples. In \<open>env_lax\<close> the schema decodes to a value and one
  validation error, as in lax mode; in \<open>env_strict\<close> it decodes to a value alone; in
  \<open>env_unreachable\<close> the schema locations of the document cannot be fetched; in
  \<open>env_bad_json\<close> the JSON module refuses the text it is to read. Building a schema
  gives the instance 0 and \<^verbatim>\<open>json.dumps\<close> gives the text \<^verbatim>\<open>true\<close>. In all of them no value
  but a list, a tuple, a string or a dict is iterable.
\<close>

definition not_iterable :: "iter_use \<Rightarrow> py_obj \<Rightarrow> exn + py_obj list" where
  "not_iterable u x = Inl (Exn TypeError ''object is not iterable'')"

fun answer_lax :: "callee \<Rightarrow> exn + py_obj" where
  "answer_lax (Function f) =
     (if f = ''fetch_schema_locations'' then Inr (PyTuple [PyStr ''schema.xsd'', PyList []])
      else if f = ''json.dumps'' then Inr (PyStr ''true'')
      else Inr PyNone)"
| "answer_lax (Method s m) =
     (if m = ''to_dict''
      then Inr (PyTuple [PyBool True, PyList [PyExc (Exn XMLSchemaValidationError ''invalid'')]])
      else Inr PyNone)"
| "answer_lax (Constructor c) = Inr (PySchema 0)"

definition env_lax :: env where
  "env_lax = \<lparr>ext = (\<lambda>log c. case c of Call f args kw \<Rightarrow> answer_lax f),
              repr = (\<lambda>x. ''<object>''), iterate = not_iterable\<rparr>"

fun answer_strict :: "callee \<Rightarrow> exn + py_obj" where
  "answer_strict (Function f) =
     (if f = ''fetch_schema_locations'' then Inr (PyTuple [PyStr ''schema.xsd'', PyList []])
      else if f = ''json.dumps'' then Inr (PyStr ''true'')
      else Inr PyNone)"
| "answer_strict (Method s m) = (if m = ''to_dict'' then Inr (PyBool True) else Inr PyNone)"
| "answer_strict (Constructor c) = Inr (PySchema 0)"

definition env_strict :: env where
  "env_strict = \<lparr>ext = (\<lambda>log c. case c of Call f args kw \<Rightarrow> answer_strict f),
              repr = (\<lambda>x. ''<object>''), iterate = not_iterable\<rparr>"

fun answer_unreachable :: "callee \<Rightarrow> exn + py_obj" where
  "answer_unreachable (Function f) =
     (if f = ''fetch_schema_locations''
      then Inl (Exn XMLSchemaURLError ''cannot access the resource'')
      else Inr PyNone)"
| "answer_unreachable f = Inr PyNone"

definition env_unreachable :: env where
  "env_unreachable = \<lparr>ext = (\<lambda>log c. case c of Call f args kw \<Rightarrow> answer_unreachable f),
              repr = (\<lambda>x. ''<object>''), iterate = not_iterable\<rparr>"

fun answer_bad_json :: "callee \<Rightarrow> exn + py_obj" where
  "answer_bad_json (Function f) =
     (if f = ''json.loads'' \<or> f = ''json.load''
      then Inl (Exn JSONDecodeError ''Expecting value: line 1 column 1 (char 0)'')
      else Inr PyNone)"
| "answer_bad_json f = Inr PyNone"

definition env_bad_json :: env where
  "env_bad_json = \<lparr>ext = (\<lambda>log c. case c of Call f args kw \<Rightarrow> answer_bad_json f),
              repr = (\<lambda>x. ''<object>''), iterate = not_iterable\<rparr>"

section \<open>Properties of the exception classes\<close>

lemma KeyError_is_KeyError: "isinstance_exn (Exn KeyError m) KeyError"
  by (simp add: isinstance_exn_def issubclass_def)

section \<open>Properties of XsdNotation\<close>

lemma append_error_eq:
  "append_error msg self schema =
     schema\<lparr>errors := errors schema @ [XMLSchemaParseError msg (oid self)]\<rparr>"
  by (simp add: append_error_def)

lemma check_attributes_eq:
  "check_attributes keys self schema =
     schema\<lparr>errors := errors schema @
       map (\<lambda>msg. XMLSchemaParseError msg (oid self))
         (concat (map (attribute_diagnostics self) keys))\<rparr>"
  by (induction keys arbitrary: schema)
     (simp_all add: attribute_diagnostics_def append_error_eq Let_def)

lemma map_of_dict_keys: "(map_of d k = None) = (k \<notin> set (dict_keys d))"
  by (simp add: dict_keys_def map_of_eq_None_iff)

lemma map_of_Some_dict_keys: "map_of d k = Some v \<Longrightarrow> k \<in> set (dict_keys d)"
  by (force simp: dict_keys_def dest: map_of_SomeD)

lemma qualified_name_missing:
  "''name'' \<notin> set (dict_keys (elem_attrib self)) \<Longrightarrow>
   qualified_name get_qname self schema = Inl (Exn KeyError (py_repr ''name''))"
  by (simp add: qualified_name_def dict_getitem_def map_of_dict_keys [symmetric])

lemma qualified_name_present:
  "map_of (elem_attrib self) ''name'' = Some n \<Longrightarrow>
   qualified_name get_qname self schema = get_qname (target_namespace schema) n"
  by (simp add: qualified_name_def dict_getitem_def)

text \<open>The result of \<open>XsdNotation_parse\<close> once the base class has done its part.\<close>

lemma XsdNotation_parse_eq:
  assumes "XsdComponent_parse self schema = Inr (self0, schema0)"
  shows "XsdNotation_parse XsdComponent_parse get_qname self schema =
     (case qualified_name get_qname self0 schema0 of
        Inr q \<Rightarrow>
          Inr (self0\<lparr>name := q\<rparr>,
               schema0\<lparr>errors := errors schema0 @
                 map (\<lambda>msg. XMLSchemaParseError msg (oid self0)) (notation_messages False self0)\<rparr>)
      | Inl e \<Rightarrow>
          if isinstance_exn e KeyError
          then Inr (self0,
               schema0\<lparr>errors := errors schema0 @
                 map (\<lambda>msg. XMLSchemaParseError msg (oid self0)) (notation_messages True self0)\<rparr>)
          else Inl e)"
proof -
  have q: "qualified_name get_qname self0 (schema0\<lparr>errors := es\<rparr>) =
           qualified_name get_qname self0 schema0" for es
    by (simp add: qualified_name_def split: sum.splits)
  have a: "attribute_diagnostics (self0\<lparr>name := q\<rparr>) = attribute_diagnostics self0" for q
    by (rule ext) (simp add: attribute_diagnostics_def)
  show ?thesis
    using assms
    by (simp add: XsdNotation_parse_def parse_name_def q a check_attributes_eq append_error_eq
          notation_messages_def Let_def split: sum.splits)
qed


lemma XsdNotation_parse_returns:
  assumes "XsdComponent_parse self schema = Inr (self0, schema0)"
    and "\<And>n. map_of (elem_attrib self0) ''name'' = Some n \<Longrightarrow>
           \<exists>q. get_qname (target_namespace schema0) n = Inr q"
  shows "\<exists>self'. XsdNotation_parse XsdComponent_parse get_qname self schema =
           Inr (self', schema0\<lparr>errors := errors schema0 @ notation_diagnostics self0\<rparr>) \<and>
         qualified_name get_qname self0 schema0 =
           (if ''name'' \<in> set (dict_keys (elem_attrib self0)) then Inr (name self')
            else Inl (Exn KeyError (py_repr ''name''))) \<and>
         self' = self0\<lparr>name := name self'\<rparr>"
proof -
  note eq = XsdNotation_parse_eq
    [where XsdComponent_parse = XsdComponent_parse and self = self and schema = schema,
     OF assms(1)]
  show ?thesis
  proof (cases "map_of (elem_attrib self0) ''name''")
    case None
    then have missing: "''name'' \<notin> set (dict_keys (elem_attrib self0))"
      by (simp add: map_of_dict_keys)
    then show ?thesis
      by (simp add: eq qualified_name_missing KeyError_is_KeyError notation_diagnostics_def)
  next
    case (Some n)
    then obtain q where q: "get_qname (target_namespace schema0) n = Inr q"
      using assms(2) by blast
    from Some have present: "''name'' \<in> set (dict_keys (elem_attrib self0))"
      by (rule map_of_Some_dict_keys)
    show ?thesis
      by (simp add: eq qualified_name_present [OF Some] q present notation_diagnostics_def)
  qed
qed

lemma wrong_attribute_inj: "(wrong_attribute k = wrong_attribute k') = (k = k')"
  by (simp add: wrong_attribute_def py_repr_def)

lemma wrong_attribute_not_fixed:
  "wrong_attribute k \<noteq> ''a notation declaration must be global.''"
  "wrong_attribute k \<noteq> ''a notation must have a 'name'.''"
  "wrong_attribute k \<noteq> ''a notation may have 'public' or 'system' attribute.''"
  by (simp_all add: wrong_attribute_def)

lemma count_wrong_attribute:
  "count_list (concat (map (attribute_diagnostics self) keys)) (wrong_attribute key) =
     (if key \<in> {''id'', ''name'', ''public'', ''system''} then 0 else count_list keys key)"
  by (induction keys)
     (auto simp: attribute_diagnostics_def wrong_attribute_inj wrong_attribute_not_fixed)

lemma count_list_distinct: "distinct xs \<Longrightarrow> x \<in> set xs \<Longrightarrow> count_list xs x = 1"
  by (induction xs) auto

lemma count_notation_messages:
  "count_list (notation_messages b self) (wrong_attribute key) =
     (if key \<in> {''id'', ''name'', ''public'', ''system''} then 0
      else count_list (dict_keys (elem_attrib self)) key)"
  by (simp add: notation_messages_def count_wrong_attribute wrong_attribute_not_fixed)

lemma count_parse_errors:
  "count_list (map (\<lambda>msg. XMLSchemaParseError msg i) msgs) (XMLSchemaParseError m i) =
     count_list msgs m"
  by (induction msgs) auto

text \<open>
  C1. A notation that lacks both \<^verbatim>\<open>public\<close> and \<^verbatim>\<open>system\<close> is to have an error recorded
  for it. The check for the two attributes stands in the body of the loop over the
  attributes, so for a declaration without any attribute it never runs: the global
  declaration \<^verbatim>\<open><notation/>\<close> gets the error for the missing name and no error for the
  missing \<^verbatim>\<open>public\<close> and \<^verbatim>\<open>system\<close>.
\<close>

theorem notation_without_attributes:
  "XsdNotation_parse base_parse_unchanged get_qname (XsdNotation_init 1 [] True)
     \<lparr>target_namespace = ''ns'', errors = []\<rparr> =
   Inr (XsdNotation_init 1 [] True,
        \<lparr>target_namespace = ''ns'',
           errors = [XMLSchemaParseError ''a notation must have a 'name'.'' 1]\<rparr>)"
  by (simp add: XsdNotation_parse_def base_parse_unchanged_def parse_name_def
        qualified_name_def dict_getitem_def XsdNotation_init_def XsdComponent_init_def
        dict_get_def dict_keys_def append_error_def KeyError_is_KeyError)


text \<open>
  C5, counterexample: for a local notation with a name and a \<^verbatim>\<open>public\<close> identifier the
  diagnostic "a notation declaration must be global." is appended to the errors of the
  owning schema; the component's own sequence of errors is empty afterwards as before.
  The sequence of the schema is shared: after a second, faultless notation of the same
  schema has been parsed, the sequence that its diagnostics would go to holds the
  diagnostic of the first component.
\<close>

theorem component_errors_stay_empty:
  "XsdNotation_parse base_parse_unchanged get_qname_braces
     \<lparr>oid = 1, name = ''jpeg'',
        elem_attrib = [(''name'', ''jpeg''), (''public'', ''image/jpeg'')],
        is_global = False, component_errors = []\<rparr>
     \<lparr>target_namespace = ''ns'', errors = []\<rparr> =
   Inr (\<lparr>oid = 1, name = ''{ns}jpeg'',
           elem_attrib = [(''name'', ''jpeg''), (''public'', ''image/jpeg'')],
           is_global = False, component_errors = []\<rparr>,
        \<lparr>target_namespace = ''ns'',
           errors = [XMLSchemaParseError ''a notation declaration must be global.'' 1]\<rparr>) \<and>
   XsdNotation_parse base_parse_unchanged get_qname_braces
     \<lparr>oid = 2, name = ''png'',
        elem_attrib = [(''name'', ''png''), (''public'', ''image/png'')],
        is_global = True, component_errors = []\<rparr>
     \<lparr>target_namespace = ''ns'',
        errors = [XMLSchemaParseError ''a notation declaration must be global.'' 1]\<rparr> =
   Inr (\<lparr>oid = 2, name = ''{ns}png'',
           elem_attrib = [(''name'', ''png''), (''public'', ''image/png'')],
           is_global = True, component_errors = []\<rparr>,
        \<lparr>target_namespace = ''ns'',
           errors = [XMLSchemaParseError ''a notation declaration must be global.'' 1]\<rparr>)"
  by (simp add: XsdNotation_parse_def base_parse_unchanged_def parse_name_def
        qualified_name_def dict_getitem_def get_qname_braces_def dict_keys_def append_error_def)

text \<open>
  C5, as amended. The diagnostics of a notation declaration are appended, in the order
  of detection, to the errors of the owning schema, after the errors that are there
  already; each one refers to the notation component; none is dropped. The component's
  own sequence of errors is what the base class left.
\<close>

theorem diagnostics_appended_to_schema_errors:
  assumes "XsdComponent_parse self schema = Inr (self0, schema0)"
    and "\<And>n. map_of (elem_attrib self0) ''name'' = Some n \<Longrightarrow>
           \<exists>q. get_qname (target_namespace schema0) n = Inr q"
  shows "\<exists>self' schema'.
           XsdNotation_parse XsdComponent_parse get_qname self schema = Inr (self', schema') \<and>
           errors schema' = errors schema0 @ notation_diagnostics self0 \<and>
           list_all (\<lambda>d. error_obj d = oid self0) (notation_diagnostics self0) \<and>
           component_errors self' = component_errors self0"
proof -
  from XsdNotation_parse_returns
    [where XsdComponent_parse = XsdComponent_parse and get_qname = get_qname, OF assms]
  obtain self' where
    r: "XsdNotation_parse XsdComponent_parse get_qname self schema =
          Inr (self', schema0\<lparr>errors := errors schema0 @ notation_diagnostics self0\<rparr>)"
    and s: "self' = self0\<lparr>name := name self'\<rparr>"
    by blast
  from s have "component_errors self' = component_errors (self0\<lparr>name := name self'\<rparr>)"
    by simp
  then have c: "component_errors self' = component_errors self0"
    by simp
  have o: "list_all (\<lambda>d. error_obj d = oid self0) (notation_diagnostics self0)"
    by (simp add: notation_diagnostics_def list_all_iff)
  from r c o show ?thesis by simp
qed

text \<open>
  C5, witness: a local notation with a name and the unknown attribute \<^verbatim>\<open>class\<close>. The
  error for the missing \<^verbatim>\<open>public\<close> and \<^verbatim>\<open>system\<close> is recorded once for each of the two
  attributes.
\<close>

theorem diagnostics_appended_to_schema_errors_witness:
  "\<exists>self' schema'.
     XsdNotation_parse base_parse_unchanged get_qname_braces
       (XsdNotation_init 1 [(''name'', ''jpeg''), (''class'', ''image'')] False)
       \<lparr>target_namespace = ''ns'', errors = []\<rparr> = Inr (self', schema') \<and>
     errors schema' =
       [XMLSchemaParseError ''a notation declaration must be global.'' 1,
        XMLSchemaParseError ''a notation may have 'public' or 'system' attribute.'' 1,
        XMLSchemaParseError (wrong_attribute ''class'') 1,
        XMLSchemaParseError ''a notation may have 'public' or 'system' attribute.'' 1] \<and>
     component_errors self' = []"
proof -
  let ?c = "XsdNotation_init 1 [(''name'', ''jpeg''), (''class'', ''image'')] False"
  let ?s = "\<lparr>target_namespace = ''ns'', errors = []\<rparr>"
  have 1: "base_parse_unchanged ?c ?s = Inr (?c, ?s)"
    by (simp add: base_parse_unchanged_def)
  have 2: "\<exists>q. get_qname_braces (target_namespace ?s) n = Inr q" for n
    by (simp add: get_qname_braces_def)
  from diagnostics_appended_to_schema_errors
    [where XsdComponent_parse = base_parse_unchanged and get_qname = get_qname_braces, OF 1 2]
  show ?thesis
    by (simp add: XsdNotation_init_def XsdComponent_init_def dict_keys_def dict_get_def
          notation_diagnostics_def notation_messages_def attribute_diagnostics_def)
qed

text \<open>
  C7. For every attribute whose key is not \<^verbatim>\<open>id\<close>, \<^verbatim>\<open>name\<close>, \<^verbatim>\<open>public\<close> or \<^verbatim>\<open>system\<close>,
  parsing appends exactly one "wrong attribute" error for that key to the errors of the
  schema, and it returns: the declaration is not rejected, and the attributes after
  it are checked as well. A dict holds every key once.
\<close>

theorem wrong_attribute_recorded_once:
  assumes "XsdComponent_parse self schema = Inr (self0, schema0)"
    and "\<And>n. map_of (elem_attrib self0) ''name'' = Some n \<Longrightarrow>
           \<exists>q. get_qname (target_namespace schema0) n = Inr q"
    and "distinct (dict_keys (elem_attrib self0))"
    and "key \<in> set (dict_keys (elem_attrib self0))"
    and "key \<notin> {''id'', ''name'', ''public'', ''system''}"
  shows "\<exists>self' schema' new.
           XsdNotation_parse XsdComponent_parse get_qname self schema = Inr (self', schema') \<and>
           errors schema' = errors schema0 @ new \<and>
           count_list new (XMLSchemaParseError (wrong_attribute key) (oid self0)) = 1"
proof -
  from XsdNotation_parse_returns
    [where XsdComponent_parse = XsdComponent_parse and get_qname = get_qname, OF assms(1,2)]
  obtain self' where
    r: "XsdNotation_parse XsdComponent_parse get_qname self schema =
          Inr (self', schema0\<lparr>errors := errors schema0 @ notation_diagnostics self0\<rparr>)"
    by blast
  have "count_list (notation_diagnostics self0)
          (XMLSchemaParseError (wrong_attribute key) (oid self0)) =
        count_list (dict_keys (elem_attrib self0)) key"
    using assms(5)
    by (simp add: notation_diagnostics_def count_parse_errors count_notation_messages)
  also have "\<dots> = 1"
    using assms(3,4) by (rule count_list_distinct)
  finally show ?thesis using r by simp
qed

text \<open>
  C7, witness: a global notation with the attributes \<^verbatim>\<open>name\<close>, \<^verbatim>\<open>class\<close> and \<^verbatim>\<open>public\<close>.
\<close>

theorem wrong_attribute_recorded_once_witness:
  "\<exists>self' schema' new.
     XsdNotation_parse base_parse_unchanged get_qname_braces
       (XsdNotation_init 1 [(''name'', ''jpeg''), (''class'', ''image''), (''public'', ''p'')] True)
       \<lparr>target_namespace = ''ns'', errors = []\<rparr> = Inr (self', schema') \<and>
     errors schema' = [] @ new \<and>
     count_list new (XMLSchemaParseError (wrong_attribute ''class'') 1) = 1"
proof -
  let ?c = "XsdNotation_init 1 [(''name'', ''jpeg''), (''class'', ''image''), (''public'', ''p'')] True"
  let ?s = "\<lparr>target_namespace = ''ns'', errors = []\<rparr>"
  have 1: "base_parse_unchanged ?c ?s = Inr (?c, ?s)"
    by (simp add: base_parse_unchanged_def)
  have 2: "\<exists>q. get_qname_braces (target_namespace ?s) n = Inr q" for n
    by (simp add: get_qname_braces_def)
  have 3: "distinct (dict_keys (elem_attrib ?c))"
    by (simp add: XsdNotation_init_def XsdComponent_init_def dict_keys_def)
  have 4: "''class'' \<in> set (dict_keys (elem_attrib ?c))"
    by (simp add: XsdNotation_init_def XsdComponent_init_def dict_keys_def)
  have 5: "''class'' \<notin> {''id'', ''name'', ''public'', ''system''}"
    by simp
  from wrong_attribute_recorded_once
    [where XsdComponent_parse = base_parse_unchanged and get_qname = get_qname_braces,
     OF 1 2 3 4 5]
  show ?thesis
    by (simp add: XsdNotation_init_def XsdComponent_init_def dict_get_def)
qed

text \<open>
  C8. After parsing a notation that carries a \<^verbatim>\<open>name\<close> attribute the name of the
  component is what \<^verbatim>\<open>get_qname\<close> makes of the target namespace of the owning schema
  and the attribute; without the attribute the name is the empty string that the
  constructor has set. The base class's \<^verbatim>\<open>_parse\<close> is taken to leave the name and the
  attributes as they are.
\<close>

theorem notation_name:
  assumes "XsdComponent_parse (XsdNotation_init i attrib glob) schema = Inr (self0, schema0)"
    and "name self0 = name (XsdNotation_init i attrib glob)"
    and "elem_attrib self0 = attrib"
    and "\<And>n. map_of attrib ''name'' = Some n \<Longrightarrow>
           \<exists>q. get_qname (target_namespace schema0) n = Inr q"
  shows "\<exists>self' schema'.
           XsdNotation_parse XsdComponent_parse get_qname (XsdNotation_init i attrib glob) schema
             = Inr (self', schema') \<and>
           (case map_of attrib ''name'' of
              Some n \<Rightarrow> get_qname (target_namespace schema0) n = Inr (name self')
            | None \<Rightarrow> name self' = '''')"
proof -
  from assms(4) have gq: "\<And>n. map_of (elem_attrib self0) ''name'' = Some n \<Longrightarrow>
           \<exists>q. get_qname (target_namespace schema0) n = Inr q"
    by (simp add: assms(3))
  from XsdNotation_parse_returns
    [where XsdComponent_parse = XsdComponent_parse and get_qname = get_qname, OF assms(1) gq]
  obtain self' where
    r: "XsdNotation_parse XsdComponent_parse get_qname (XsdNotation_init i attrib glob) schema =
          Inr (self', schema0\<lparr>errors := errors schema0 @ notation_diagnostics self0\<rparr>)"
    and q: "qualified_name get_qname self0 schema0 =
           (if ''name'' \<in> set (dict_keys (elem_attrib self0)) then Inr (name self')
            else Inl (Exn KeyError (py_repr ''name'')))"
    and s: "self' = self0\<lparr>name := name self'\<rparr>"
    by blast
  show ?thesis
  proof (cases "map_of attrib ''name''")
    case None
    then have "qualified_name get_qname self0 schema0 = Inl (Exn KeyError (py_repr ''name''))"
      by (simp add: qualified_name_def dict_getitem_def assms(3))
    moreover have "name self0 = ''''"
      using None by (simp add: assms(2) XsdNotation_init_def XsdComponent_init_def dict_get_def)
    ultimately show ?thesis
      using None
      by (simp add: XsdNotation_parse_eq
            [where XsdComponent_parse = XsdComponent_parse and get_qname = get_qname,
             OF assms(1)] KeyError_is_KeyError)
  next
    case (Some n)
    then have "''name'' \<in> set (dict_keys (elem_attrib self0))"
      unfolding assms(3) by (rule map_of_Some_dict_keys)
    with q Some show ?thesis
      using r by (simp add: qualified_name_def dict_getitem_def assms(3))
  qed
qed

text \<open>
  C8, witness: a notation named \<^verbatim>\<open>jpeg\<close> in the namespace \<^verbatim>\<open>ns\<close>, and a notation
  without a name.
\<close>

theorem notation_name_witness:
  "(\<exists>self' schema'.
      XsdNotation_parse base_parse_unchanged get_qname_braces
        (XsdNotation_init 1 [(''name'', ''jpeg''), (''public'', ''image/jpeg'')] True)
        \<lparr>target_namespace = ''ns'', errors = []\<rparr> = Inr (self', schema') \<and>
      name self' = ''{ns}jpeg'') \<and>
   (\<exists>self' schema'.
      XsdNotation_parse base_parse_unchanged get_qname_braces
        (XsdNotation_init 2 [(''public'', ''image/jpeg'')] True)
        \<lparr>target_namespace = ''ns'', errors = []\<rparr> = Inr (self', schema') \<and>
      name self' = '''')"
proof -
  let ?s = "\<lparr>target_namespace = ''ns'', errors = []\<rparr>"
  have 1: "base_parse_unchanged (XsdNotation_init i attrib glob) ?s =
             Inr (XsdNotation_init i attrib glob, ?s)" for i attrib glob
    by (simp add: base_parse_unchanged_def)
  have 3: "elem_attrib (XsdNotation_init i attrib glob) = attrib" for i attrib glob
    by (simp add: XsdNotation_init_def XsdComponent_init_def)
  have 4: "\<exists>q. get_qname_braces (target_namespace ?s) n = Inr q" for n
    by (simp add: get_qname_braces_def)
  from notation_name
    [where XsdComponent_parse = base_parse_unchanged and get_qname = get_qname_braces,
     OF 1 refl 3 4, of 1 "[(''name'', ''jpeg''), (''public'', ''image/jpeg'')]" True]
  have a: "\<exists>self' schema'.
      XsdNotation_parse base_parse_unchanged get_qname_braces
        (XsdNotation_init 1 [(''name'', ''jpeg''), (''public'', ''image/jpeg'')] True)
        \<lparr>target_namespace = ''ns'', errors = []\<rparr> = Inr (self', schema') \<and>
      name self' = ''{ns}jpeg''"
    by (simp add: get_qname_braces_def) metis
  from notation_name
    [where XsdComponent_parse = base_parse_unchanged and get_qname = get_qname_braces,
     OF 1 refl 3 4, of 2 "[(''public'', ''image/jpeg'')]" True]
  have b: "\<exists>self' schema'.
      XsdNotation_parse base_parse_unchanged get_qname_braces
        (XsdNotation_init 2 [(''public'', ''image/jpeg'')] True)
        \<lparr>target_namespace = ''ns'', errors = []\<rparr> = Inr (self', schema') \<and>
      name self' = ''''"
    by simp
  from a b show ?thesis ..
qed

section \<open>Properties of the public entry points\<close>

lemma build_schema_eq:
  "build_schema env xml_document schema cls locations log =
     (let fetch = Call (Function ''fetch_schema_locations'') [xml_document, locations] [];
          build = (\<lambda>s l. Call (Constructor cls) [s]
                     [(''validation'', PyStr ''strict''), (''locations'', l)])
      in if schema = PyNone
         then (case ext env log fetch of
                 Inl e \<Rightarrow> (log @ [fetch], Inl e)
               | Inr x \<Rightarrow>
                   (case unpack2 env x of
                      Inl e \<Rightarrow> (log @ [fetch], Inl e)
                    | Inr (s, l) \<Rightarrow>
                        (log @ [fetch, build s l], ext env (log @ [fetch]) (build s l))))
         else (log @ [build schema locations], ext env log (build schema locations)))"
  by (simp add: build_schema_def bind_prog_def call_ext_def ret_def lift_def Let_def
        split: sum.splits prod.splits)

lemma validate_eq:
  "validate env xml_document schema cls_arg use_defaults_arg locations log =
     (let check = (\<lambda>s. Call (Method s ''validate'')
                     [xml_document, arg_default (PyBool True) use_defaults_arg] []);
          checked = (\<lambda>log s. (log @ [check s],
                     case ext env log (check s) of Inl e \<Rightarrow> Inl e | Inr x \<Rightarrow> Inr PyNone))
      in if isinstance_XMLSchema schema then checked log schema
         else (case build_schema env xml_document schema
                      (arg_default (PyClass ''XMLSchema'') cls_arg) locations log of
                 (log1, Inl e) \<Rightarrow> (log1, Inl e)
               | (log1, Inr built) \<Rightarrow> checked log1 built))"
  by (simp add: validate_def bind_prog_def call_ext_def ret_def Let_def
        split: sum.splits prod.splits)

lemma to_dict_eq:
  "to_dict env xml_document schema cls_arg path process_namespaces_arg locations kwargs log =
     (let decode = (\<lambda>s. Call (Method s ''to_dict'') [xml_document]
                      ([(''path'', path),
                        (''process_namespaces'',
                           arg_default (PyBool True) process_namespaces_arg)] @ kwargs))
      in if isinstance_XMLSchema schema
         then (log @ [decode schema], ext env log (decode schema))
         else (case build_schema env xml_document schema
                      (arg_default (PyClass ''XMLSchema'') cls_arg) locations log of
                 (log1, Inl e) \<Rightarrow> (log1, Inl e)
               | (log1, Inr built) \<Rightarrow> (log1 @ [decode built], ext env log1 (decode built))))"
  by (simp add: to_dict_def bind_prog_def call_ext_def ret_def Let_def
        split: sum.splits prod.splits)

lemma from_json_eq:
  "from_json env source (PySchema n) path converter json_options kwargs log =
     (let options = arg_default [] json_options;
          load = Call (Function (if hasattr_read source then ''json.load'' else ''json.loads''))
                   [source]
                   ([(''object_hook'',
                        dict_get options ''object_hook'' (PyClass ''ordered_dict_class'')),
                     (''object_pairs_hook'',
                        dict_get (AList.delete ''object_hook'' options) ''object_pairs_hook''
                          (PyClass ''ordered_dict_class''))]
                    @ AList.delete ''object_pairs_hook'' (AList.delete ''object_hook'' options));
          encode = (\<lambda>obj. Call (Method (PySchema n) ''encode'') [obj]
                     ([(''path'', path), (''converter'', converter),
                       (''dict_class'',
                          dict_get kwargs ''dict_class'' (PyClass ''ordered_dict_class''))]
                      @ AList.delete ''dict_class'' kwargs))
      in case ext env log load of
           Inl e \<Rightarrow> (log @ [load], Inl e)
         | Inr obj \<Rightarrow> (log @ [load, encode obj], ext env (log @ [load]) (encode obj)))"
  by (simp add: from_json_def bind_prog_def call_ext_def Let_def dict_pop_def
        split: sum.splits prod.splits)

lemma leftover_kwargs_eq:
  "leftover_kwargs kwargs = AList.delete ''dict_class'' (AList.delete ''decimal_type'' kwargs)"
  by (simp add: leftover_kwargs_def dict_pop_def)

lemma to_json_decode_eq:
  "to_json_decode env xml_document schema cls_arg path converter process_namespaces_arg
       locations kwargs log =
     (let decode = (\<lambda>s. Call (Method s ''to_dict'') [xml_document]
               ([(''path'', path),
                 (''decimal_type'', dict_get kwargs ''decimal_type'' (PyClass ''float'')),
                 (''dict_class'',
                    dict_get (AList.delete ''decimal_type'' kwargs) ''dict_class''
                      (PyClass ''ordered_dict_class'')),
                 (''process_namespaces'', arg_default (PyBool True) process_namespaces_arg),
                 (''converter'', converter)]
                @ AList.delete ''dict_class'' (AList.delete ''decimal_type'' kwargs)))
      in if isinstance_XMLSchema schema
         then (log @ [decode schema], ext env log (decode schema))
         else (case build_schema env xml_document schema
                      (arg_default (PyClass ''XMLSchema'') cls_arg) locations log of
                 (log1, Inl e) \<Rightarrow> (log1, Inl e)
               | (log1, Inr built) \<Rightarrow> (log1 @ [decode built], ext env log1 (decode built))))"
  by (simp add: to_json_decode_def bind_prog_def call_ext_def ret_def Let_def dict_pop_def
        split: sum.splits prod.splits)

lemma to_json_emit_pair:
  "to_json_emit env fp json_options kw (PyTuple [v, PyList es]) log1 =
     (if fp \<noteq> PyNone
      then (log1 @ [Call (Function ''json.dump'') [v, fp] kw],
            case ext env log1 (Call (Function ''json.dump'') [v, fp] kw) of
              Inl e \<Rightarrow> Inl e
            | Inr x \<Rightarrow> Inr (PyTuple es))
      else (log1 @ [Call (Function ''json.dumps'') [v] json_options],
            case ext env log1 (Call (Function ''json.dumps'') [v] json_options) of
              Inl e \<Rightarrow> Inl e
            | Inr s \<Rightarrow> Inr (PyTuple [s, PyTuple es])))"
  by (simp add: to_json_emit_def bind_prog_def call_ext_def lift_def ret_def
        tuple_getitem_def py_tuple_def split: sum.splits)

lemma to_json_emit_plain:
  "(\<forall>xs. obj \<noteq> PyTuple xs) \<Longrightarrow>
   to_json_emit env fp json_options kw obj log1 =
     (if fp \<noteq> PyNone
      then (log1 @ [Call (Function ''json.dump'') [obj, fp] json_options],
            case ext env log1 (Call (Function ''json.dump'') [obj, fp] json_options) of
              Inl e \<Rightarrow> Inl e
            | Inr x \<Rightarrow> Inr PyNone)
      else (log1 @ [Call (Function ''json.dumps'') [obj] json_options],
            ext env log1 (Call (Function ''json.dumps'') [obj] json_options)))"
  by (cases obj)
     (simp_all add: to_json_emit_def bind_prog_def call_ext_def ret_def split: sum.splits)

lemma to_json_emit_tuple_no_file:
  "to_json_emit env PyNone json_options kw (PyTuple xs) log1 =
     (case xs of
        [] \<Rightarrow> (log1, Inl (Exn IndexError ''tuple index out of range''))
      | v # rest \<Rightarrow>
          (case ext env log1 (Call (Function ''json.dumps'') [v] json_options) of
             Inl e \<Rightarrow> (log1 @ [Call (Function ''json.dumps'') [v] json_options], Inl e)
           | Inr s \<Rightarrow>
               (log1 @ [Call (Function ''json.dumps'') [v] json_options],
                case rest of
                  [] \<Rightarrow> Inl (Exn IndexError ''tuple index out of range'')
                | errs # others \<Rightarrow>
                    (case py_iter env Tuple_call errs of
                       Inl e \<Rightarrow> Inl e
                     | Inr es \<Rightarrow> Inr (PyTuple [s, PyTuple es])))))"
  by (simp add: to_json_emit_def bind_prog_def call_ext_def lift_def ret_def
        tuple_getitem_def py_tuple_def split: sum.splits list.splits)

lemma to_json_after_decode:
  "to_json_decode env xml_document schema cls_arg path converter process_namespaces_arg
       locations kwargs log = (log1, r) \<Longrightarrow>
   to_json env xml_document fp schema cls_arg path converter process_namespaces_arg
       locations json_options kwargs log =
     (case r of
        Inl e \<Rightarrow> (log1, Inl e)
      | Inr obj \<Rightarrow>
          to_json_emit env fp (arg_default [] json_options)
            (AList.delete ''dict_class'' (AList.delete ''decimal_type'' kwargs)) obj log1)"
  by (simp add: to_json_def bind_prog_def leftover_kwargs_eq split: sum.splits)

lemma validate_returns:
  assumes "validate env xml_document schema cls_arg use_defaults_arg locations log = (log', Inr v)"
  shows "v = PyNone \<and>
         (\<exists>s x. last log' = Call (Method s ''validate'')
                    [xml_document, arg_default (PyBool True) use_defaults_arg] [] \<and>
                ext env (butlast log') (last log') = Inr x)"
  using assms
  by (auto simp: validate_eq build_schema_eq Let_def butlast_append
        split: if_splits sum.splits prod.splits)

lemma to_json_covered:
  "(case to_json_decode env xml_document schema cls_arg path converter process_namespaces_arg
           locations kwargs log of
      (log1, Inl e) \<Rightarrow>
        to_json env xml_document fp schema cls_arg path converter process_namespaces_arg
          locations json_options kwargs log = (log1, Inl e)
    | (log1, Inr obj) \<Rightarrow>
        (case obj of
           PyTuple xs \<Rightarrow>
             fp = PyNone \<longrightarrow>
             to_json env xml_document fp schema cls_arg path converter process_namespaces_arg
               locations json_options kwargs log =
               (case xs of
                  [] \<Rightarrow> (log1, Inl (Exn IndexError ''tuple index out of range''))
                | v # rest \<Rightarrow>
                    (case ext env log1
                            (Call (Function ''json.dumps'') [v] (arg_default [] json_options)) of
                       Inl e \<Rightarrow>
                         (log1 @ [Call (Function ''json.dumps'') [v]
                                    (arg_default [] json_options)], Inl e)
                     | Inr s \<Rightarrow>
                         (log1 @ [Call (Function ''json.dumps'') [v]
                                    (arg_default [] json_options)],
                          case rest of
                            [] \<Rightarrow> Inl (Exn IndexError ''tuple index out of range'')
                          | errs # others \<Rightarrow>
                              (case py_iter env Tuple_call errs of
                                 Inl e \<Rightarrow> Inl e
                               | Inr es \<Rightarrow> Inr (PyTuple [s, PyTuple es])))))
         | _ \<Rightarrow>
             to_json env xml_document fp schema cls_arg path converter process_namespaces_arg
               locations json_options kwargs log =
               (if fp \<noteq> PyNone
                then (log1 @ [Call (Function ''json.dump'') [obj, fp]
                                (arg_default [] json_options)],
                      case ext env log1 (Call (Function ''json.dump'') [obj, fp]
                                (arg_default [] json_options)) of
                        Inl e \<Rightarrow> Inl e
                      | Inr x \<Rightarrow> Inr PyNone)
                else (log1 @ [Call (Function ''json.dumps'') [obj]
                                (arg_default [] json_options)],
                      ext env log1 (Call (Function ''json.dumps'') [obj]
                                (arg_default [] json_options))))))"
proof (cases "to_json_decode env xml_document schema cls_arg path converter
                process_namespaces_arg locations kwargs log")
  case (Pair log1 r)
  note after = to_json_after_decode [OF Pair]
  show ?thesis
  proof (cases r)
    case (Inl e)
    with Pair after show ?thesis by simp
  next
    case (Inr obj)
    show ?thesis
    proof (cases "\<exists>xs. obj = PyTuple xs")
      case True
      then obtain xs where "obj = PyTuple xs" ..
      with Pair Inr show ?thesis
        by (simp add: after to_json_emit_tuple_no_file)
    next
      case False
      then have "\<forall>xs. obj \<noteq> PyTuple xs" by simp
      from to_json_emit_plain [OF this] Pair Inr False show ?thesis
        by (cases obj) (simp_all add: after)
    qed
  qed
qed

text \<open>
  C2, counterexample: \<^verbatim>\<open>from_json\<close> called with a schema instance and a text that is not
  JSON. \<^verbatim>\<open>json.loads\<close> raises its \<open>JSONDecodeError\<close>; \<^verbatim>\<open>from_json\<close> has no handler, so
  the call fails with that exception, and no encoding is attempted. The class is a
  \<open>ValueError\<close> of the JSON module, not one of the exception classes of the library.
\<close>

theorem from_json_raises_JSONDecodeError:
  "from_json env_bad_json (PyStr ''not json'') (PySchema 1) PyNone PyNone None [] [] =
     ([Call (Function ''json.loads'') [PyStr ''not json'']
         [(''object_hook'', PyClass ''ordered_dict_class''),
          (''object_pairs_hook'', PyClass ''ordered_dict_class'')]],
      Inl (Exn JSONDecodeError ''Expecting value: line 1 column 1 (char 0)'')) \<and>
   \<not> issubclass JSONDecodeError XMLSchemaException"
  by (simp add: from_json_def bind_prog_def call_ext_def Let_def dict_pop_def dict_get_def
        arg_default_def env_bad_json_def issubclass_def)

text \<open>
  C2, as amended. Every call of \<^verbatim>\<open>validate\<close>, \<^verbatim>\<open>to_dict\<close> and \<^verbatim>\<open>to_json\<close>, and of \<^verbatim>\<open>from_json\<close>
  with a schema instance, makes a fixed chain of outside calls and has the outcome that
  the chain determines; the calls and the outcome are given exactly, for every answer of
  the environment.

  \<^item> Getting the schema (lines 50-53, 86-89, 124-127): for \<open>None\<close> the schema locations of
    the document are fetched and the answer is unpacked into two values, then the schema
    class is called; a failure of either call, or of the unpacking, is the outcome.
  \<^item> \<^verbatim>\<open>validate\<close> returns \<open>None\<close> when the schema's \<^verbatim>\<open>validate\<close> returns, and \<^verbatim>\<open>to_dict\<close> returns
    what the schema's \<^verbatim>\<open>to_dict\<close> returns: the value, or the pair of the value and the
    errors that lax validation gives. \<^verbatim>\<open>from_json\<close> reads the JSON text and returns what the
    schema's \<^verbatim>\<open>encode\<close> returns for the object read. An exception of any of these calls is
    the outcome, unchanged, whatever its class.
  \<^item> \<^verbatim>\<open>to_json\<close> decodes with the schema's \<^verbatim>\<open>to_dict\<close>; a failure there is the outcome. A
    decoded value that is not a tuple is written to \<open>fp\<close> with \<^verbatim>\<open>json.dump\<close>, returning
    \<open>None\<close>, or without \<open>fp\<close> is returned as the text that \<^verbatim>\<open>json.dumps\<close> gives. A decoded
    tuple, without \<open>fp\<close>, gives the pair of the text of its first item and the tuple of
    the items of its second; a tuple with fewer than two items raises \<open>IndexError\<close>, the
    first item being serialised before the second is read.

  Left out are \<^verbatim>\<open>from_json\<close> with a schema that is not an instance (C3) and \<^verbatim>\<open>to_json\<close>
  writing a decoded tuple to \<open>fp\<close> (lines 137-139, where \<^verbatim>\<open>json.dump\<close> is given the
  decoding options in place of the JSON options).
\<close>

theorem entry_point_outcomes:
  "build_schema env xml_document schema cls locations log =
     (let fetch = Call (Function ''fetch_schema_locations'') [xml_document, locations] [];
          build = (\<lambda>s l. Call (Constructor cls) [s]
                     [(''validation'', PyStr ''strict''), (''locations'', l)])
      in if schema = PyNone
         then (case ext env log fetch of
                 Inl e \<Rightarrow> (log @ [fetch], Inl e)
               | Inr x \<Rightarrow>
                   (case unpack2 env x of
                      Inl e \<Rightarrow> (log @ [fetch], Inl e)
                    | Inr (s, l) \<Rightarrow>
                        (log @ [fetch, build s l], ext env (log @ [fetch]) (build s l))))
         else (log @ [build schema locations], ext env log (build schema locations))) \<and>
   validate env xml_document schema cls_arg use_defaults_arg locations log =
     (let check = (\<lambda>s. Call (Method s ''validate'')
                     [xml_document, arg_default (PyBool True) use_defaults_arg] []);
          checked = (\<lambda>log s. (log @ [check s],
                     case ext env log (check s) of Inl e \<Rightarrow> Inl e | Inr x \<Rightarrow> Inr PyNone))
      in if isinstance_XMLSchema schema then checked log schema
         else (case build_schema env xml_document schema
                      (arg_default (PyClass ''XMLSchema'') cls_arg) locations log of
                 (log1, Inl e) \<Rightarrow> (log1, Inl e)
               | (log1, Inr built) \<Rightarrow> checked log1 built)) \<and>
   to_dict env xml_document schema cls_arg path process_namespaces_arg locations kwargs log =
     (let decode = (\<lambda>s. Call (Method s ''to_dict'') [xml_document]
                      ([(''path'', path),
                        (''process_namespaces'',
                           arg_default (PyBool True) process_namespaces_arg)] @ kwargs))
      in if isinstance_XMLSchema schema
         then (log @ [decode schema], ext env log (decode schema))
         else (case build_schema env xml_document schema
                      (arg_default (PyClass ''XMLSchema'') cls_arg) locations log of
                 (log1, Inl e) \<Rightarrow> (log1, Inl e)
               | (log1, Inr built) \<Rightarrow> (log1 @ [decode built], ext env log1 (decode built)))) \<and>
   from_json env source (PySchema n) path converter json_options kwargs log =
     (let options = arg_default [] json_options;
          load = Call (Function (if hasattr_read source then ''json.load'' else ''json.loads''))
                   [source]
                   ([(''object_hook'',
                        dict_get options ''object_hook'' (PyClass ''ordered_dict_class'')),
                     (''object_pairs_hook'',
                        dict_get (AList.delete ''object_hook'' options) ''object_pairs_hook''
                          (PyClass ''ordered_dict_class''))]
                    @ AList.delete ''object_pairs_hook'' (AList.delete ''object_hook'' options));
          encode = (\<lambda>obj. Call (Method (PySchema n) ''encode'') [obj]
                     ([(''path'', path), (''converter'', converter),
                       (''dict_class'',
                          dict_get kwargs ''dict_class'' (PyClass ''ordered_dict_class''))]
                      @ AList.delete ''dict_class'' kwargs))
      in case ext env log load of
           Inl e \<Rightarrow> (log @ [load], Inl e)
         | Inr obj \<Rightarrow> (log @ [load, encode obj], ext env (log @ [load]) (encode obj))) \<and>
   to_json_decode env xml_document schema cls_arg path converter process_namespaces_arg
       locations kwargs log =
     (let decode = (\<lambda>s. Call (Method s ''to_dict'') [xml_document]
               ([(''path'', path),
                 (''decimal_type'', dict_get kwargs ''decimal_type'' (PyClass ''float'')),
                 (''dict_class'',
                    dict_get (AList.delete ''decimal_type'' kwargs) ''dict_class''
                      (PyClass ''ordered_dict_class'')),
                 (''process_namespaces'', arg_default (PyBool True) process_namespaces_arg),
                 (''converter'', converter)]
                @ AList.delete ''dict_class'' (AList.delete ''decimal_type'' kwargs)))
      in if isinstance_XMLSchema schema
         then (log @ [decode schema], ext env log (decode schema))
         else (case build_schema env xml_document schema
                      (arg_default (PyClass ''XMLSchema'') cls_arg) locations log of
                 (log1, Inl e) \<Rightarrow> (log1, Inl e)
               | (log1, Inr built) \<Rightarrow> (log1 @ [decode built], ext env log1 (decode built)))) \<and>
   (case to_json_decode env xml_document schema cls_arg path converter process_namespaces_arg
           locations kwargs log of
      (log1, Inl e) \<Rightarrow>
        to_json env xml_document fp schema cls_arg path converter process_namespaces_arg
          locations json_options kwargs log = (log1, Inl e)
    | (log1, Inr obj) \<Rightarrow>
        (case obj of
           PyTuple xs \<Rightarrow>
             fp = PyNone \<longrightarrow>
             to_json env xml_document fp schema cls_arg path converter process_namespaces_arg
               locations json_options kwargs log =
               (case xs of
                  [] \<Rightarrow> (log1, Inl (Exn IndexError ''tuple index out of range''))
                | v # rest \<Rightarrow>
                    (case ext env log1
                            (Call (Function ''json.dumps'') [v] (arg_default [] json_options)) of
                       Inl e \<Rightarrow>
                         (log1 @ [Call (Function ''json.dumps'') [v]
                                    (arg_default [] json_options)], Inl e)
                     | Inr s \<Rightarrow>
                         (log1 @ [Call (Function ''json.dumps'') [v]
                                    (arg_default [] json_options)],
                          case rest of
                            [] \<Rightarrow> Inl (Exn IndexError ''tuple index out of range'')
                          | errs # others \<Rightarrow>
                              (case py_iter env Tuple_call errs of
                                 Inl e \<Rightarrow> Inl e
                               | Inr es \<Rightarrow> Inr (PyTuple [s, PyTuple es])))))
         | _ \<Rightarrow>
             to_json env xml_document fp schema cls_arg path converter process_namespaces_arg
               locations json_options kwargs log =
               (if fp \<noteq> PyNone
                then (log1 @ [Call (Function ''json.dump'') [obj, fp]
                                (arg_default [] json_options)],
                      case ext env log1 (Call (Function ''json.dump'') [obj, fp]
                                (arg_default [] json_options)) of
                        Inl e \<Rightarrow> Inl e
                      | Inr x \<Rightarrow> Inr PyNone)
                else (log1 @ [Call (Function ''json.dumps'') [obj]
                                (arg_default [] json_options)],
                      ext env log1 (Call (Function ''json.dumps'') [obj]
                                (arg_default [] json_options))))))"
  by (intro conjI)
     (rule build_schema_eq validate_eq to_dict_eq from_json_eq to_json_decode_eq
        to_json_covered)+

text \<open>
  An instance of C2 as amended, the last part: \<^verbatim>\<open>to_json\<close> without \<open>fp\<close>, with a schema
  instance whose decoding gives a value and one validation error, returns the pair of
  the JSON text and the tuple of the errors.
\<close>

theorem entry_point_outcomes_witness:
  "to_json env_lax (PyStr ''doc.xml'') PyNone (PySchema 1) None PyNone PyNone None PyNone
     None [] [] =
     ([Call (Method (PySchema 1) ''to_dict'') [PyStr ''doc.xml'']
         [(''path'', PyNone), (''decimal_type'', PyClass ''float''),
          (''dict_class'', PyClass ''ordered_dict_class''),
          (''process_namespaces'', PyBool True), (''converter'', PyNone)],
       Call (Function ''json.dumps'') [PyBool True] []],
      Inr (PyTuple [PyStr ''true'',
                    PyTuple [PyExc (Exn XMLSchemaValidationError ''invalid'')]]))"
  using entry_point_outcomes
    [where env = env_lax and xml_document = "PyStr ''doc.xml''" and schema = "PySchema 1"
       and cls_arg = None and path = PyNone and converter = PyNone
       and process_namespaces_arg = None and locations = PyNone and kwargs = "[]"
       and log = "[]" and fp = PyNone and json_options = None,
     THEN conjunct2, THEN conjunct2, THEN conjunct2, THEN conjunct2, THEN conjunct2]
  by (simp add: to_json_decode_eq Let_def arg_default_def dict_get_def env_lax_def)

text \<open>
  C3. Every exception of an entry point is to be an instance of \<open>XMLSchemaException\<close>.
  \<^verbatim>\<open>from_json\<close> called with the path of a schema instead of an instance raises the
  built-in \<open>TypeError\<close> of line 168, before any outside call, and \<open>TypeError\<close> is not
  a subclass of \<open>XMLSchemaException\<close>.
\<close>

theorem from_json_raises_builtin_TypeError:
  "from_json env (PyStr ''{}'') (PyStr ''schema.xsd'') PyNone PyNone None [] log =
     (log, Inl (Exn TypeError
        (''An XMLSchema instance required for 'schema' argument: ''
           @ repr env (PyStr ''schema.xsd'')))) \<and>
   \<not> issubclass TypeError XMLSchemaException"
  by (simp add: from_json_def raise_def schema_required_def issubclass_def)

text \<open>
  C6, counterexample: \<^verbatim>\<open>validate\<close> called without a schema, where fetching the schema
  locations of the document fails with \<open>XMLSchemaURLError\<close>: the call raises that
  exception, which is not a validation error.
\<close>

theorem validate_raises_URLError:
  "validate env_unreachable (PyStr ''doc.xml'') PyNone None None PyNone [] =
     ([Call (Function ''fetch_schema_locations'') [PyStr ''doc.xml'', PyNone] []],
      Inl (Exn XMLSchemaURLError ''cannot access the resource'')) \<and>
   \<not> issubclass XMLSchemaURLError XMLSchemaValidationError"
  by (simp add: validate_def build_schema_def bind_prog_def call_ext_def ret_def Let_def
        arg_default_def env_unreachable_def issubclass_def)

text \<open>
  C6, as amended. \<^verbatim>\<open>validate\<close> returns no value, and its \<open>use_defaults\<close> is true when
  not given. For every input the calls it makes and its outcome are these: the
  \<^verbatim>\<open>validate\<close> method of the given instance is called; for any other schema argument the
  schema class is called first, after the schema locations of the document have been
  fetched and unpacked when the argument is \<open>None\<close>, and the \<^verbatim>\<open>validate\<close> method of the
  schema built is called. The call returns \<open>None\<close> exactly when that method returns,
  that is when the schema finds the document valid. Otherwise it raises: the exception
  of the method (a validation error for an invalid document), or the exception of
  fetching the locations or of the schema class, unchanged, or the error of unpacking
  what the fetching returned. So whenever \<^verbatim>\<open>validate\<close> returns, the value is \<open>None\<close> and
  the last call made is the \<^verbatim>\<open>validate\<close> method of a schema, with the document and
  \<open>use_defaults\<close>, and that call returned.
\<close>

theorem validate_outcome:
  "validate env xml_document schema cls_arg None locations log =
     validate env xml_document schema cls_arg (Some (PyBool True)) locations log \<and>
   validate env xml_document schema cls_arg use_defaults_arg locations log =
     (let fetch = Call (Function ''fetch_schema_locations'') [xml_document, locations] [];
          build = (\<lambda>s l. Call (Constructor (arg_default (PyClass ''XMLSchema'') cls_arg)) [s]
                     [(''validation'', PyStr ''strict''), (''locations'', l)]);
          check = (\<lambda>s. Call (Method s ''validate'')
                     [xml_document, arg_default (PyBool True) use_defaults_arg] []);
          checked = (\<lambda>log s. (log @ [check s],
                     case ext env log (check s) of Inl e \<Rightarrow> Inl e | Inr x \<Rightarrow> Inr PyNone));
          built = (\<lambda>log s l.
                     case ext env log (build s l) of
                       Inl e \<Rightarrow> (log @ [build s l], Inl e)
                     | Inr b \<Rightarrow> checked (log @ [build s l]) b)
      in if isinstance_XMLSchema schema then checked log schema
         else if schema = PyNone
         then (case ext env log fetch of
                 Inl e \<Rightarrow> (log @ [fetch], Inl e)
               | Inr x \<Rightarrow>
                   (case unpack2 env x of
                      Inl e \<Rightarrow> (log @ [fetch], Inl e)
                    | Inr (s, l) \<Rightarrow> built (log @ [fetch]) s l))
         else built log schema locations) \<and>
   (\<forall>log' v.
      validate env xml_document schema cls_arg use_defaults_arg locations log = (log', Inr v) \<longrightarrow>
      v = PyNone \<and>
      (\<exists>s x. last log' = Call (Method s ''validate'')
                 [xml_document, arg_default (PyBool True) use_defaults_arg] [] \<and>
             ext env (butlast log') (last log') = Inr x))"
proof (intro conjI allI impI)
  show "validate env xml_document schema cls_arg None locations log =
     validate env xml_document schema cls_arg (Some (PyBool True)) locations log"
    by (simp add: validate_def arg_default_def)
next
  show "validate env xml_document schema cls_arg use_defaults_arg locations log =
     (let fetch = Call (Function ''fetch_schema_locations'') [xml_document, locations] [];
          build = (\<lambda>s l. Call (Constructor (arg_default (PyClass ''XMLSchema'') cls_arg)) [s]
                     [(''validation'', PyStr ''strict''), (''locations'', l)]);
          check = (\<lambda>s. Call (Method s ''validate'')
                     [xml_document, arg_default (PyBool True) use_defaults_arg] []);
          checked = (\<lambda>log s. (log @ [check s],
                     case ext env log (check s) of Inl e \<Rightarrow> Inl e | Inr x \<Rightarrow> Inr PyNone));
          built = (\<lambda>log s l.
                     case ext env log (build s l) of
                       Inl e \<Rightarrow> (log @ [build s l], Inl e)
                     | Inr b \<Rightarrow> checked (log @ [build s l]) b)
      in if isinstance_XMLSchema schema then checked log schema
         else if schema = PyNone
         then (case ext env log fetch of
                 Inl e \<Rightarrow> (log @ [fetch], Inl e)
               | Inr x \<Rightarrow>
                   (case unpack2 env x of
                      Inl e \<Rightarrow> (log @ [fetch], Inl e)
                    | Inr (s, l) \<Rightarrow> built (log @ [fetch]) s l))
         else built log schema locations)"
    by (simp add: validate_eq build_schema_eq Let_def split: sum.splits prod.splits)
next
  fix log' v
  assume "validate env xml_document schema cls_arg use_defaults_arg locations log = (log', Inr v)"
  from validate_returns [OF this]
  show "v = PyNone"
    and "\<exists>s x. last log' = Call (Method s ''validate'')
                 [xml_document, arg_default (PyBool True) use_defaults_arg] [] \<and>
             ext env (butlast log') (last log') = Inr x"
    by simp_all
qed

text \<open>
  An instance of C6 as amended: \<^verbatim>\<open>validate\<close> with the path of a schema and no
  \<open>use_defaults\<close> builds the schema with \<^verbatim>\<open>XMLSchema\<close>, calls its \<^verbatim>\<open>validate\<close> with
  \<open>use_defaults\<close> true and returns \<open>None\<close>.
\<close>

theorem validate_outcome_witness:
  "validate env_lax (PyStr ''doc.xml'') (PyStr ''schema.xsd'') None None PyNone [] =
     ([Call (Constructor (PyClass ''XMLSchema'')) [PyStr ''schema.xsd'']
         [(''validation'', PyStr ''strict''), (''locations'', PyNone)],
       Call (Method (PySchema 0) ''validate'') [PyStr ''doc.xml'', PyBool True] []],
      Inr PyNone)"
  using validate_outcome
    [where env = env_lax and xml_document = "PyStr ''doc.xml''"
       and schema = "PyStr ''schema.xsd''" and cls_arg = None and locations = PyNone
       and log = "[]" and use_defaults_arg = None, THEN conjunct2, THEN conjunct1]
  by (simp add: Let_def arg_default_def env_lax_def)

text \<open>
  C9. When the schema argument of \<^verbatim>\<open>validate\<close> or \<^verbatim>\<open>to_dict\<close> is an \<^verbatim>\<open>XMLSchema\<close> instance,
  the only outside call made is the call of that instance's own method, with the
  document and the remaining options: no schema class is called and no schema location
  is fetched, and the outcome is that of the method (for \<^verbatim>\<open>validate\<close>, \<^verbatim>\<open>None\<close> when it
  returns). Neither \<open>cls\<close> nor \<open>locations\<close> occurs in the result: any other values
  of the two give the same.
\<close>

theorem given_instance_is_used:
  "validate env xml_document (PySchema n) cls_arg use_defaults_arg locations log =
     (log @ [Call (Method (PySchema n) ''validate'')
               [xml_document, arg_default (PyBool True) use_defaults_arg] []],
      case ext env log (Call (Method (PySchema n) ''validate'')
               [xml_document, arg_default (PyBool True) use_defaults_arg] []) of
        Inl e \<Rightarrow> Inl e
      | Inr v \<Rightarrow> Inr PyNone) \<and>
   to_dict env xml_document (PySchema n) cls_arg path process_namespaces_arg locations kwargs log =
     (log @ [Call (Method (PySchema n) ''to_dict'') [xml_document]
               ([(''path'', path),
                 (''process_namespaces'', arg_default (PyBool True) process_namespaces_arg)]
                  @ kwargs)],
      ext env log (Call (Method (PySchema n) ''to_dict'') [xml_document]
               ([(''path'', path),
                 (''process_namespaces'', arg_default (PyBool True) process_namespaces_arg)]
                  @ kwargs))) \<and>
   validate env xml_document (PySchema n) cls_arg use_defaults_arg locations log =
     validate env xml_document (PySchema n) cls_arg' use_defaults_arg locations' log \<and>
   to_dict env xml_document (PySchema n) cls_arg path process_namespaces_arg locations kwargs log =
     to_dict env xml_document (PySchema n) cls_arg' path process_namespaces_arg locations' kwargs
       log"
  by (simp add: validate_def to_dict_def bind_prog_def call_ext_def ret_def Let_def
        split: sum.splits)

text \<open>
  C10. \<^verbatim>\<open>to_json\<close> with a file \<open>fp\<close>, after a decoding that returned \<open>obj\<close>. When \<open>obj\<close>
  is a tuple of a value and a list of errors, the value is written by \<^verbatim>\<open>json.dump\<close> with
  the keyword arguments that the decoding left over (\<open>kwargs\<close> without \<^verbatim>\<open>decimal_type\<close>
  and \<^verbatim>\<open>dict_class\<close>), not with \<open>json_options\<close>, and when the writer returns the
  result is the tuple of the errors alone. When \<open>obj\<close> is not a tuple it is written
  with \<open>json_options\<close> and the result is \<^verbatim>\<open>None\<close>.
\<close>

theorem to_json_with_fp:
  assumes "fp \<noteq> PyNone"
    and "to_json_decode env xml_document schema cls_arg path converter process_namespaces_arg
           locations kwargs log = (log1, Inr obj)"
  shows "(obj = PyTuple [v, PyList es] \<longrightarrow>
            to_json env xml_document fp schema cls_arg path converter process_namespaces_arg
                locations json_options kwargs log =
              (log1 @ [Call (Function ''json.dump'') [v, fp]
                         (AList.delete ''dict_class'' (AList.delete ''decimal_type'' kwargs))],
               case ext env log1 (Call (Function ''json.dump'') [v, fp]
                         (AList.delete ''dict_class'' (AList.delete ''decimal_type'' kwargs))) of
                 Inl e \<Rightarrow> Inl e
               | Inr x \<Rightarrow> Inr (PyTuple es))) \<and>
         ((\<forall>xs. obj \<noteq> PyTuple xs) \<longrightarrow>
            to_json env xml_document fp schema cls_arg path converter process_namespaces_arg
                locations json_options kwargs log =
              (log1 @ [Call (Function ''json.dump'') [obj, fp] (arg_default [] json_options)],
               case ext env log1
                      (Call (Function ''json.dump'') [obj, fp] (arg_default [] json_options)) of
                 Inl e \<Rightarrow> Inl e
               | Inr x \<Rightarrow> Inr PyNone))"
  using assms(1)
  by (simp add: to_json_after_decode [OF assms(2)] to_json_emit_pair to_json_emit_plain)

lemma to_json_decode_instance:
  "to_json_decode env xml_document (PySchema n) cls_arg path converter process_namespaces_arg
       locations kwargs log =
     (log @ [Call (Method (PySchema n) ''to_dict'') [xml_document]
               ([(''path'', path),
                 (''decimal_type'', dict_get kwargs ''decimal_type'' (PyClass ''float'')),
                 (''dict_class'',
                    dict_get (AList.delete ''decimal_type'' kwargs) ''dict_class''
                      (PyClass ''ordered_dict_class'')),
                 (''process_namespaces'', arg_default (PyBool True) process_namespaces_arg),
                 (''converter'', converter)]
                @ AList.delete ''dict_class'' (AList.delete ''decimal_type'' kwargs))],
      ext env log (Call (Method (PySchema n) ''to_dict'') [xml_document]
               ([(''path'', path),
                 (''decimal_type'', dict_get kwargs ''decimal_type'' (PyClass ''float'')),
                 (''dict_class'',
                    dict_get (AList.delete ''decimal_type'' kwargs) ''dict_class''
                      (PyClass ''ordered_dict_class'')),
                 (''process_namespaces'', arg_default (PyBool True) process_namespaces_arg),
                 (''converter'', converter)]
                @ AList.delete ''dict_class'' (AList.delete ''decimal_type'' kwargs))))"
  by (simp add: to_json_decode_def bind_prog_def call_ext_def ret_def Let_def dict_pop_def)

text \<open>
  C10, witness: the same call with a schema that decodes to a value and one error, and
  with a schema that decodes to a value alone. The keyword arguments are
  \<^verbatim>\<open>decimal_type=str, indent='  '\<close> and \<open>json_options\<close> is \<^verbatim>\<open>{'sort_keys': True}\<close>.
\<close>

theorem to_json_with_fp_witness:
  "to_json env_lax (PyStr ''doc.xml'') (PyFile 1) (PySchema 1) None PyNone PyNone None PyNone
     (Some [(''sort_keys'', PyBool True)])
     [(''decimal_type'', PyClass ''str''), (''indent'', PyStr ''  '')] [] =
     ([Call (Method (PySchema 1) ''to_dict'') [PyStr ''doc.xml'']
         [(''path'', PyNone), (''decimal_type'', PyClass ''str''),
          (''dict_class'', PyClass ''ordered_dict_class''),
          (''process_namespaces'', PyBool True), (''converter'', PyNone),
          (''indent'', PyStr ''  '')],
       Call (Function ''json.dump'') [PyBool True, PyFile 1] [(''indent'', PyStr ''  '')]],
      Inr (PyTuple [PyExc (Exn XMLSchemaValidationError ''invalid'')])) \<and>
   to_json env_strict (PyStr ''doc.xml'') (PyFile 1) (PySchema 1) None PyNone PyNone None PyNone
     (Some [(''sort_keys'', PyBool True)])
     [(''decimal_type'', PyClass ''str''), (''indent'', PyStr ''  '')] [] =
     ([Call (Method (PySchema 1) ''to_dict'') [PyStr ''doc.xml'']
         [(''path'', PyNone), (''decimal_type'', PyClass ''str''),
          (''dict_class'', PyClass ''ordered_dict_class''),
          (''process_namespaces'', PyBool True), (''converter'', PyNone),
          (''indent'', PyStr ''  '')],
       Call (Function ''json.dump'') [PyBool True, PyFile 1] [(''sort_keys'', PyBool True)]],
      Inr PyNone)"
proof -
  have fp: "PyFile 1 \<noteq> PyNone"
    by simp
  let ?kw = "[(''decimal_type'', PyClass ''str''), (''indent'', PyStr ''  '')]"
  let ?c = "Call (Method (PySchema 1) ''to_dict'') [PyStr ''doc.xml'']
         [(''path'', PyNone), (''decimal_type'', PyClass ''str''),
          (''dict_class'', PyClass ''ordered_dict_class''),
          (''process_namespaces'', PyBool True), (''converter'', PyNone),
          (''indent'', PyStr ''  '')]"
  have lax: "to_json_decode env_lax (PyStr ''doc.xml'') (PySchema 1) None PyNone PyNone None
      PyNone ?kw [] =
      ([?c], Inr (PyTuple [PyBool True, PyList [PyExc (Exn XMLSchemaValidationError ''invalid'')]]))"
    by (simp add: to_json_decode_instance dict_get_def arg_default_def env_lax_def)
  have strict: "to_json_decode env_strict (PyStr ''doc.xml'') (PySchema 1) None PyNone PyNone None
      PyNone ?kw [] = ([?c], Inr (PyBool True))"
    by (simp add: to_json_decode_instance dict_get_def arg_default_def env_strict_def)
  from to_json_with_fp
    [where v = "PyBool True" and es = "[PyExc (Exn XMLSchemaValidationError ''invalid'')]"
       and json_options = "Some [(''sort_keys'', PyBool True)]", OF fp lax]
  have a: "to_json env_lax (PyStr ''doc.xml'') (PyFile 1) (PySchema 1) None PyNone PyNone None
      PyNone (Some [(''sort_keys'', PyBool True)]) ?kw [] =
     ([?c, Call (Function ''json.dump'') [PyBool True, PyFile 1] [(''indent'', PyStr ''  '')]],
      Inr (PyTuple [PyExc (Exn XMLSchemaValidationError ''invalid'')]))"
    by (simp add: env_lax_def)
  from to_json_with_fp [where json_options = "Some [(''sort_keys'', PyBool True)]", OF fp strict]
  have b: "to_json env_strict (PyStr ''doc.xml'') (PyFile 1) (PySchema 1) None PyNone PyNone None
      PyNone (Some [(''sort_keys'', PyBool True)]) ?kw [] =
     ([?c, Call (Function ''json.dump'') [PyBool True, PyFile 1] [(''sort_keys'', PyBool True)]],
      Inr PyNone)"
    by (simp add: env_strict_def arg_default_def)
  from a b show ?thesis ..
qed

end
